theory Spec2Isabelle
  imports Complex_Main
begin

section \<open>Python values shared by both source files\<close>

text \<open>
  Exceptions are values. \<open>ValueError\<close> carries its message, as \<open>get_activation\<close> builds
  one; \<open>InvalidArgumentError\<close> is what the tensor framework raises for operands whose
  shapes do not fit; \<open>SystemExit\<close> is how \<open>argparse\<close> ends the program (its exit
  status is left out); the remaining constructors are the other exceptions a Python
  call on a string or a module could raise, so that "only a \<open>ValueError\<close>" says
  something.
\<close>

datatype py_error =
    ValueError string
  | TypeError string
  | AttributeError string
  | KeyError string
  | InvalidArgumentError
  | SystemExit

text \<open>
  \<open>str.lower()\<close> on the ASCII range: the letters \<open>A\<close> .. \<open>Z\<close> (codes 65 .. 90) move to
  \<open>a\<close> .. \<open>z\<close>, every other character stays.
\<close>

definition lower_char :: "char \<Rightarrow> char" where
  "lower_char c =
     (let n = (of_char c :: nat) in if 65 \<le> n \<and> n \<le> 90 then char_of (n + 32) else c)"

definition lower :: "string \<Rightarrow> string" where
  "lower s = map lower_char s"


section \<open>\<open>models/activations.py\<close>: the activation table\<close>

text \<open>
  The layers of \<open>paddle.nn\<close> that the table holds. None of them has a parameter, so a
  layer is given by its class.
\<close>

datatype nn_layer = nn_Silu | nn_Mish | nn_GELU | nn_ReLU

definition ACTIVATION_FUNCTIONS :: "(string \<times> nn_layer) list" where
  "ACTIVATION_FUNCTIONS =
     [(''swish'', nn_Silu),
      (''silu'', nn_Silu),
      (''mish'', nn_Mish),
      (''gelu'', nn_GELU),
      (''relu'', nn_ReLU)]"

definition get_activation :: "string \<Rightarrow> py_error + nn_layer" where
  "get_activation act_fn =
     (let act_fn = lower act_fn in
      case map_of ACTIVATION_FUNCTIONS act_fn of
        Some layer \<Rightarrow> Inr layer
      | None \<Rightarrow> Inl (ValueError (''Unsupported activation function: '' @ act_fn)))"


section \<open>Tensors and the framework's primitives\<close>

text \<open>
  A tensor is the list of its rows along the last axis, the leading axes flattened; the
  entries are real numbers, the values the floats stand for. \<open>paddle.matmul x w\<close>
  with a two-dimensional \<open>w\<close> (the list of its rows) multiplies every row of \<open>x\<close> by
  \<open>w\<close> and raises when the row is not as long as \<open>w\<close> has rows. A list of no rows
  carries no width: a weight with \<open>in_features = 0\<close> is outside this form (the
  framework returns rows of \<open>out_features\<close> zeros there, \<open>matmul\<close> rows of no entries),
  and the facts about shapes below are for weights of at least one row.
\<close>

type_synonym tensor = "real list list"

definition dot :: "real list \<Rightarrow> real list \<Rightarrow> real" where
  "dot u v = sum_list (map2 (*) u v)"

definition matmul :: "tensor \<Rightarrow> tensor \<Rightarrow> py_error + tensor" where
  "matmul x w =
     (if list_all (\<lambda>r. length r = length w) x
      then Inr (map (\<lambda>r. map (dot r) (transpose w)) x)
      else Inl InvalidArgumentError)"

text \<open>Adding a one-dimensional bias to every row.\<close>

definition add_bias :: "tensor \<Rightarrow> real list \<Rightarrow> py_error + tensor" where
  "add_bias y b =
     (if list_all (\<lambda>r. length r = length b) y
      then Inr (map (\<lambda>r. map2 (+) r b) y)
      else Inl InvalidArgumentError)"

text \<open>
  \<open>nn.Linear\<close>: the weight has \<open>in_features\<close> rows of \<open>out_features\<close> entries, the bias
  \<open>out_features\<close> entries, and the layer computes \<open>matmul x weight + bias\<close>.
\<close>

record Linear =
  weight :: tensor
  bias :: "real list"

definition Linear_shape :: "Linear \<Rightarrow> nat \<Rightarrow> nat \<Rightarrow> bool" where
  "Linear_shape l in_features out_features =
     (length (weight l) = in_features
      \<and> list_all (\<lambda>r. length r = out_features) (weight l)
      \<and> length (bias l) = out_features)"

definition Linear_forward :: "Linear \<Rightarrow> tensor \<Rightarrow> py_error + tensor" where
  "Linear_forward l x =
     (case matmul x (weight l) of
        Inl e \<Rightarrow> Inl e
      | Inr y \<Rightarrow> add_bias y (bias l))"

text \<open>
  The elementwise operations. \<open>mul\<close> is \<open>*\<close> on two tensors, which both source
  expressions apply to operands of one shape; \<open>scalar_mul\<close> is \<open>*\<close> with a Python number.
  \<open>F.sigmoid\<close> is the logistic function. \<open>F.gelu\<close> is taken as the framework gives it:
  the scalar function \<open>g approximate\<close>, applied to every entry.
\<close>

definition mul :: "tensor \<Rightarrow> tensor \<Rightarrow> tensor" where
  "mul a b = map2 (map2 (*)) a b"

definition scalar_mul :: "real \<Rightarrow> tensor \<Rightarrow> tensor" where
  "scalar_mul c t = map (map ((*) c)) t"

definition sigmoid :: "real \<Rightarrow> real" where
  "sigmoid v = 1 / (1 + exp (- v))"

definition F_sigmoid :: "tensor \<Rightarrow> tensor" where
  "F_sigmoid t = map (map sigmoid) t"

definition F_gelu :: "(bool \<Rightarrow> real \<Rightarrow> real) \<Rightarrow> tensor \<Rightarrow> bool \<Rightarrow> tensor" where
  "F_gelu g t approximate = map (map (g approximate)) t"

text \<open>
  The two functions \<open>F.gelu\<close> stands for in the framework's documentation:
  \<open>0.5 * x * (1 + erf (x / sqrt 2))\<close>, and with \<open>approximate=True\<close>
  \<open>0.5 * x * (1 + tanh (sqrt (2 / pi) * (x + 0.044715 * x ^ 3)))\<close>. The error function
  is given by its power series, whose terms at \<open>1 / sqrt 2\<close> are, up to sign and a
  common factor, \<open>erf_term\<close>.
\<close>

definition erf :: "real \<Rightarrow> real" where
  "erf x = 2 / sqrt pi * (\<Sum>n. (- 1) ^ n * x ^ (2 * n + 1) / (fact n * real (2 * n + 1)))"

definition gelu_erf :: "real \<Rightarrow> real" where
  "gelu_erf v = 0.5 * v * (1 + erf (v / sqrt 2))"

definition gelu_tanh :: "real \<Rightarrow> real" where
  "gelu_tanh v = 0.5 * v * (1 + tanh (sqrt (2 / pi) * (v + 0.044715 * v ^ 3)))"

definition paddle_gelu :: "bool \<Rightarrow> real \<Rightarrow> real" where
  "paddle_gelu approximate v = (if approximate then gelu_tanh v else gelu_erf v)"

definition erf_term :: "nat \<Rightarrow> real" where
  "erf_term n = (1 / 2) ^ n / (fact n * real (2 * n + 1))"

text \<open>
  \<open>t.chunk(2, axis=-1)\<close>: two halves along the last axis; the framework raises when
  the last axis has odd length.
\<close>

definition chunk2 :: "tensor \<Rightarrow> py_error + tensor \<times> tensor" where
  "chunk2 t =
     (if list_all (\<lambda>r. even (length r)) t
      then Inr (map (\<lambda>r. take (length r div 2) r) t, map (\<lambda>r. drop (length r div 2) r) t)
      else Inl InvalidArgumentError)"


section \<open>\<open>models/activations.py\<close>: the GELU module\<close>

text \<open>
  One application of the fused bias-activation operator: its name, its tensor inputs
  (an optional input that is not handed over is \<open>None\<close>) and its attributes. The
  operator itself is the framework's; a kernel \<open>krn\<close> maps an application to its result
  or to the exception it raises.
\<close>

record fused_bias_act_op =
  op_type :: string
  op_x :: tensor
  op_bias :: "real list option"
  op_dequant_scales :: "real list option"
  op_shift :: "real list option"
  op_smooth :: "real list option"
  op_act_method :: string
  op_compute_dtype :: string
  op_quant_scale :: real
  op_quant_round_type :: int
  op_quant_max_bound :: real
  op_quant_min_bound :: real

record GELU =
  GELU_proj :: Linear
  approximate :: string

definition GELU_gelu :: "(bool \<Rightarrow> real \<Rightarrow> real) \<Rightarrow> GELU \<Rightarrow> tensor \<Rightarrow> tensor" where
  "GELU_gelu g self gate = F_gelu g gate (approximate self \<noteq> ''none'')"

text \<open>
  \<open>compute_activation\<close>. In dynamic mode every argument goes to
  \<open>paddle._C_ops.fused_bias_act\<close>. Otherwise the operator is appended to the graph with
  the inputs dictionary the code builds, \<open>x\<close> and, when it is not \<open>None\<close>, \<open>bias\<close>, and
  with the six attributes.
\<close>

definition compute_activation ::
  "bool \<Rightarrow> tensor \<Rightarrow> real list option \<Rightarrow> real list option \<Rightarrow> real list option \<Rightarrow>
   real list option \<Rightarrow> string \<Rightarrow> string \<Rightarrow> real \<Rightarrow> int \<Rightarrow> real \<Rightarrow> real \<Rightarrow> fused_bias_act_op" where
  "compute_activation in_dynamic_mode ffn1_out bias' dequant_scales shift smooth
     act_method compute_dtype quant_scale quant_round_type quant_max_bound quant_min_bound =
     (if in_dynamic_mode then
        \<lparr>op_type = ''fused_bias_act'',
         op_x = ffn1_out,
         op_bias = bias',
         op_dequant_scales = dequant_scales,
         op_shift = shift,
         op_smooth = smooth,
         op_act_method = act_method,
         op_compute_dtype = compute_dtype,
         op_quant_scale = quant_scale,
         op_quant_round_type = quant_round_type,
         op_quant_max_bound = quant_max_bound,
         op_quant_min_bound = quant_min_bound\<rparr>
      else
        \<lparr>op_type = ''fused_bias_act'',
         op_x = ffn1_out,
         op_bias = (case bias' of None \<Rightarrow> None | Some b \<Rightarrow> Some b),
         op_dequant_scales = None,
         op_shift = None,
         op_smooth = None,
         op_act_method = act_method,
         op_compute_dtype = compute_dtype,
         op_quant_scale = quant_scale,
         op_quant_round_type = quant_round_type,
         op_quant_max_bound = quant_max_bound,
         op_quant_min_bound = quant_min_bound\<rparr>)"

text \<open>
  \<open>GELU.forward\<close>: \<open>matmul\<close> with the projection's weight, then \<open>compute_activation\<close>
  with the projection's bias, \<open>act_method="gelu"\<close> and the defaults of the signature
  for everything else.
\<close>

definition GELU_forward ::
  "(fused_bias_act_op \<Rightarrow> py_error + tensor) \<Rightarrow> bool \<Rightarrow> GELU \<Rightarrow> tensor \<Rightarrow> py_error + tensor" where
  "GELU_forward krn in_dynamic_mode self hidden_states =
     (case matmul hidden_states (weight (GELU_proj self)) of
        Inl e \<Rightarrow> Inl e
      | Inr hs \<Rightarrow>
          krn (compute_activation in_dynamic_mode hs (Some (bias (GELU_proj self)))
                 None None None ''gelu'' ''default'' (- 1) 0 0 0))"


section \<open>\<open>models/activations.py\<close>: GEGLU and ApproximateGELU\<close>

text \<open>
  \<open>GEGLU(dim_in, dim_out)\<close> holds one projection of \<open>dim_in\<close> to \<open>dim_out * 2\<close> features.
  With \<open>USE_PEFT_BACKEND\<close> it is an \<open>nn.Linear\<close>, called on the input alone; without, a
  \<open>LoRACompatibleLinear\<close>, called on the input and \<open>scale\<close>. That class is defined in
  \<open>models/lora.py\<close>, and its call is the parameter \<open>lora_forward\<close> here.
  \<open>GEGLU_proj_call\<close> is the expression \<open>self.proj(hidden_states, *args)\<close> of \<open>forward\<close>.
\<close>

record GEGLU =
  GEGLU_proj :: Linear

definition GEGLU_shape :: "GEGLU \<Rightarrow> nat \<Rightarrow> nat \<Rightarrow> bool" where
  "GEGLU_shape self dim_in dim_out = Linear_shape (GEGLU_proj self) dim_in (dim_out * 2)"

definition GEGLU_gelu :: "(bool \<Rightarrow> real \<Rightarrow> real) \<Rightarrow> tensor \<Rightarrow> tensor" where
  "GEGLU_gelu g gate = F_gelu g gate False"

definition GEGLU_proj_call ::
  "bool \<Rightarrow> (Linear \<Rightarrow> tensor \<Rightarrow> real \<Rightarrow> py_error + tensor) \<Rightarrow> GEGLU \<Rightarrow> tensor \<Rightarrow> real \<Rightarrow>
   py_error + tensor" where
  "GEGLU_proj_call USE_PEFT_BACKEND lora_forward self hidden_states scale =
     (if USE_PEFT_BACKEND then Linear_forward (GEGLU_proj self) hidden_states
      else lora_forward (GEGLU_proj self) hidden_states scale)"

definition GEGLU_forward ::
  "bool \<Rightarrow> (Linear \<Rightarrow> tensor \<Rightarrow> real \<Rightarrow> py_error + tensor) \<Rightarrow> (bool \<Rightarrow> real \<Rightarrow> real) \<Rightarrow>
   GEGLU \<Rightarrow> tensor \<Rightarrow> real \<Rightarrow> py_error + tensor" where
  "GEGLU_forward USE_PEFT_BACKEND lora_forward g self hidden_states scale =
     (case GEGLU_proj_call USE_PEFT_BACKEND lora_forward self hidden_states scale of
        Inl e \<Rightarrow> Inl e
      | Inr y \<Rightarrow>
          (case chunk2 y of
             Inl e \<Rightarrow> Inl e
           | Inr (hs, gate) \<Rightarrow> Inr (mul hs (GEGLU_gelu g gate))))"

record ApproximateGELU =
  ApproximateGELU_proj :: Linear

definition ApproximateGELU_forward :: "ApproximateGELU \<Rightarrow> tensor \<Rightarrow> py_error + tensor" where
  "ApproximateGELU_forward self x =
     (case Linear_forward (ApproximateGELU_proj self) x of
        Inl e \<Rightarrow> Inl e
      | Inr x' \<Rightarrow> Inr (mul x' (F_sigmoid (scalar_mul 1.702 x'))))"


section \<open>The example script: the command line\<close>

text \<open>
  The three boolean flags of \<open>parse_args\<close>. Each one is declared with its own copy of
  the converter \<open>lambda x: str(x).lower() in ["true", "1", "yes"]\<close>; \<open>argparse\<close> hands it
  the argument string, on which \<open>str\<close> is the identity, and rejects the argument when
  the converter raises. The result is \<open>Inr\<close> of the flag's value or \<open>Inl\<close> of the
  exception.
\<close>

datatype bool_flag = benchmark_flag | inference_optimize_flag | inference_optimize_triton_flag

fun flag_type :: "bool_flag \<Rightarrow> string \<Rightarrow> py_error + bool" where
  "flag_type benchmark_flag x = Inr (lower x \<in> set [''true'', ''1'', ''yes''])"
| "flag_type inference_optimize_flag x = Inr (lower x \<in> set [''true'', ''1'', ''yes''])"
| "flag_type inference_optimize_triton_flag x = Inr (lower x \<in> set [''true'', ''1'', ''yes''])"

text \<open>
  The namespace \<open>parse_args\<close> returns, and the \<open>default\<close> of every argument.
\<close>

record args =
  benchmark :: bool
  inference_optimize :: bool
  inference_optimize_triton :: bool
  height :: int
  width :: int
  num_inference_steps :: int

definition default_args :: args where
  "default_args =
     \<lparr>benchmark = False, inference_optimize = False, inference_optimize_triton = False,
      height = 512, width = 512, num_inference_steps = 50\<rparr>"

text \<open>
  The command line as \<open>argparse\<close> reads it, from left to right: a request for help
  (\<open>-h\<close>, \<open>--help\<close>); one of the three flags with the string given as its value; one of
  \<open>--height\<close>, \<open>--width\<close>, \<open>--num-inference-steps\<close> with what \<open>int\<close>, their \<open>type\<close>, makes of
  the string given as its value (\<open>None\<close> when \<open>int\<close> raises \<open>ValueError\<close>); or an
  argument that \<open>argparse\<close> refuses whatever the converters return (an option it does
  not know, an option without its value, a positional argument). The surface forms
  (\<open>--height 768\<close>, \<open>--height=768\<close>, an unambiguous prefix of an option) are
  \<open>argparse\<close>'s own and are not told apart here.
\<close>

datatype int_option = height_option | width_option | num_inference_steps_option

datatype cli_arg =
    HelpArg
  | FlagArg bool_flag string
  | IntArg int_option "int option"
  | RefusedArg

text \<open>
  What \<open>argparse\<close> does with a converter's result: a \<open>ValueError\<close> or \<open>TypeError\<close> becomes
  the error message and the exit, any other exception goes through.
\<close>

fun get_value :: "py_error + 'a \<Rightarrow> py_error + 'a" where
  "get_value (Inr v) = Inr v"
| "get_value (Inl (ValueError m)) = Inl SystemExit"
| "get_value (Inl (TypeError m)) = Inl SystemExit"
| "get_value (Inl e) = Inl e"

fun store_flag :: "bool_flag \<Rightarrow> bool \<Rightarrow> args \<Rightarrow> args" where
  "store_flag benchmark_flag v namespace = namespace\<lparr>benchmark := v\<rparr>"
| "store_flag inference_optimize_flag v namespace = namespace\<lparr>inference_optimize := v\<rparr>"
| "store_flag inference_optimize_triton_flag v namespace =
     namespace\<lparr>inference_optimize_triton := v\<rparr>"

fun store_int :: "int_option \<Rightarrow> int \<Rightarrow> args \<Rightarrow> args" where
  "store_int height_option v namespace = namespace\<lparr>height := v\<rparr>"
| "store_int width_option v namespace = namespace\<lparr>width := v\<rparr>"
| "store_int num_inference_steps_option v namespace = namespace\<lparr>num_inference_steps := v\<rparr>"

text \<open>
  The arguments are taken in order, each value stored over the earlier one; help, a
  refused argument or a refused value ends the program.
\<close>

fun consume_args :: "cli_arg list \<Rightarrow> args \<Rightarrow> py_error + args" where
  "consume_args [] namespace = Inr namespace"
| "consume_args (HelpArg # rest) namespace = Inl SystemExit"
| "consume_args (RefusedArg # rest) namespace = Inl SystemExit"
| "consume_args (FlagArg f x # rest) namespace =
     (case get_value (flag_type f x) of
        Inl e \<Rightarrow> Inl e
      | Inr v \<Rightarrow> consume_args rest (store_flag f v namespace))"
| "consume_args (IntArg k None # rest) namespace = Inl SystemExit"
| "consume_args (IntArg k (Some v) # rest) namespace =
     consume_args rest (store_int k v namespace)"

definition parse_args :: "cli_arg list \<Rightarrow> py_error + args" where
  "parse_args argv = consume_args argv default_args"


section \<open>The example script: time\<close>

text \<open>
  A \<open>datetime\<close> is its number of microseconds since a fixed instant. The difference of
  two is a \<open>timedelta\<close>, which Python keeps normalised: any number of days, seconds from
  \<open>0\<close> to \<open>86399\<close>, microseconds from \<open>0\<close> to \<open>999999\<close>.
\<close>

type_synonym datetime = int

record timedelta =
  days :: int
  seconds :: int
  microseconds :: int

definition datetime_sub :: "datetime \<Rightarrow> datetime \<Rightarrow> timedelta" where
  "datetime_sub t2 t1 =
     \<lparr>days = (t2 - t1) div 86400000000,
      seconds = (t2 - t1) mod 86400000000 div 1000000,
      microseconds = (t2 - t1) mod 1000000\<rparr>"

text \<open>
  The script's \<open>duringtime.seconds * 1000 + duringtime.microseconds / 1000.0\<close>, the
  float arithmetic read over the reals.
\<close>

definition time_ms :: "timedelta \<Rightarrow> real" where
  "time_ms duringtime =
     real_of_int (seconds duringtime * 1000) + real_of_int (microseconds duringtime) / 1000"

text \<open>
  The whole of a \<open>timedelta\<close> in milliseconds, Python's
  \<open>duringtime / timedelta(milliseconds=1)\<close>: what the claims call the elapsed duration
  in milliseconds.
\<close>

definition total_milliseconds :: "timedelta \<Rightarrow> real" where
  "total_milliseconds d =
     real_of_int ((days d * 86400 + seconds d) * 1000000 + microseconds d) / 1000"


section \<open>The example script: the run\<close>

text \<open>
  What a run does to the world, in order. An image is known by the number of the
  pipeline call that returned it. The run is given the command line, the two readings
  of \<open>datetime.now()\<close> and the reading of \<open>paddle.device.cuda.max_memory_allocated()\<close>.
  The calls into the framework are taken to return, as the script handles no exception
  of theirs; an exception that leaves \<open>parse_args\<close> ends the run, which \<open>Raised\<close> records.
\<close>

datatype event =
    SetEnv string string
  | FromPretrained
  | ManualSeed int
  | ParseArgs
  | PipeCall string int int int
  | Synchronize
  | Now datetime
  | PrintAveTime real
  | PrintMaxMemory real
  | Save nat string
  | Raised py_error

record run =
  trace :: "event list"
  n_calls :: nat
  image :: nat

definition prompt :: string where
  "prompt = ''A cat holding a sign that says hello world''"

definition repeat_times :: nat where
  "repeat_times = 10"

definition emit :: "event \<Rightarrow> run \<Rightarrow> run" where
  "emit e s = s\<lparr>trace := trace s @ [e]\<rparr>"

text \<open>
  \<open>image = pipe(prompt, num_inference_steps=..., width=..., height=...,
  generator=generator).images[0]\<close>.
\<close>

definition pipe_event :: "args \<Rightarrow> event" where
  "pipe_event a = PipeCall prompt (num_inference_steps a) (width a) (height a)"

definition pipe :: "args \<Rightarrow> run \<Rightarrow> run" where
  "pipe a s = (emit (pipe_event a) s)\<lparr>n_calls := Suc (n_calls s), image := Suc (n_calls s)\<rparr>"

text \<open>\<open>for i in range(n): body\<close>, for a body that does not read \<open>i\<close>.\<close>

primrec for_range :: "nat \<Rightarrow> (run \<Rightarrow> run) \<Rightarrow> run \<Rightarrow> run" where
  "for_range 0 body s = s"
| "for_range (Suc n) body s = for_range n body (body s)"

definition benchmark_block :: "args \<Rightarrow> datetime \<Rightarrow> datetime \<Rightarrow> nat \<Rightarrow> run \<Rightarrow> run" where
  "benchmark_block a starttime endtime max_memory_allocated s0 =
     (let s1 = for_range 5 (pipe a) s0;
          s2 = emit Synchronize s1;
          s3 = emit (Now starttime) s2;
          s4 = for_range repeat_times (pipe a) s3;
          s5 = emit Synchronize s4;
          s6 = emit (Now endtime) s5;
          duringtime = datetime_sub endtime starttime;
          s7 = emit (PrintAveTime (time_ms duringtime / real repeat_times)) s6;
          cuda_mem_after_used = real max_memory_allocated / 1024 ^ 3
      in emit (PrintMaxMemory cuda_mem_after_used) s7)"

text \<open>
  The script up to the call of \<open>parse_args\<close>: the environment variable, the loading of
  the pipeline and the seeding of the generator.
\<close>

definition startup :: run where
  "startup =
     \<lparr>trace = [SetEnv ''FLAGS_use_cuda_managed_memory'' ''true'', FromPretrained, ManualSeed 42],
      n_calls = 0, image = 0\<rparr>"

text \<open>The script after \<open>args = parse_args()\<close>.\<close>

definition script_body :: "args \<Rightarrow> datetime \<Rightarrow> datetime \<Rightarrow> nat \<Rightarrow> run \<Rightarrow> run" where
  "script_body a starttime endtime max_memory_allocated s0 =
     (let s1 = (if inference_optimize a then emit (SetEnv ''INFERENCE_OPTIMIZE'' ''True'') s0
                else s0);
          s2 = (if inference_optimize_triton a
                then emit (SetEnv ''INFERENCE_OPTIMIZE_TRITON'' ''True'') s1 else s1);
          s3 = pipe a s2;
          s4 = (if benchmark a
                then benchmark_block a starttime endtime max_memory_allocated s3 else s3)
      in emit (Save (image s4) ''text_to_image_generation-stable_diffusion_3-result.png'') s4)"

text \<open>The whole run on a command line.\<close>

definition script :: "cli_arg list \<Rightarrow> datetime \<Rightarrow> datetime \<Rightarrow> nat \<Rightarrow> run" where
  "script argv starttime endtime max_memory_allocated =
     (let s0 = emit ParseArgs startup in
      case parse_args argv of
        Inl e \<Rightarrow> emit (Raised e) s0
      | Inr a \<Rightarrow> script_body a starttime endtime max_memory_allocated s0)"

text \<open>The run in which \<open>parse_args\<close> returns the namespace \<open>a\<close>.\<close>

definition script_with_args :: "args \<Rightarrow> datetime \<Rightarrow> datetime \<Rightarrow> nat \<Rightarrow> run" where
  "script_with_args a starttime endtime max_memory_allocated =
     script_body a starttime endtime max_memory_allocated (emit ParseArgs startup)"




section \<open>Facts about the string helpers\<close>

lemma lower_char_idem: "lower_char (lower_char c) = lower_char c"
  by (simp add: lower_char_def Let_def)

lemma lower_idem: "lower (lower s) = lower s"
  by (simp add: lower_def lower_char_idem)

lemma map_of_ACTIVATION_FUNCTIONS:
  "map_of ACTIVATION_FUNCTIONS k =
     (if k = ''swish'' then Some nn_Silu
      else if k = ''silu'' then Some nn_Silu
      else if k = ''mish'' then Some nn_Mish
      else if k = ''gelu'' then Some nn_GELU
      else if k = ''relu'' then Some nn_ReLU
      else None)"
  by (simp add: ACTIVATION_FUNCTIONS_def)


section \<open>Facts about tensors\<close>

lemma map2_map_same: "map2 f xs (map h xs) = map (\<lambda>x. f x (h x)) xs"
  by (induction xs) auto

lemma mul_pointwise: "mul y (map (map h) y) = map (map (\<lambda>v. v * h v)) y"
  by (induction y) (auto simp: mul_def map2_map_same)

lemma sigmoid_scalar_mul: "F_sigmoid (scalar_mul c y) = map (map (\<lambda>v. sigmoid (c * v))) y"
  by (simp add: F_sigmoid_def scalar_mul_def comp_def)

lemma chunk2_width:
  "list_all (\<lambda>r. length r = d * 2) y \<Longrightarrow> chunk2 y = Inr (map (take d) y, map (drop d) y)"
  by (induction y) (auto simp: chunk2_def list_all_iff)

lemma mul_halves:
  "mul (map (take d) y) (F_gelu g (map (drop d) y) a) =
     map (\<lambda>r. map2 (*) (take d r) (map (g a) (drop d r))) y"
  by (induction y) (auto simp: mul_def F_gelu_def)

text \<open>The shape of a projection's result.\<close>

lemma foldr_max_rect:
  "list_all (\<lambda>r. length r = n) w \<Longrightarrow>
     foldr (\<lambda>xs. max (length xs)) w 0 = (if w = [] then 0 else n)"
  by (induction w) auto

lemma length_transpose_rect:
  "w \<noteq> [] \<Longrightarrow> list_all (\<lambda>r. length r = n) w \<Longrightarrow> length (transpose w) = n"
  by (simp add: length_transpose foldr_max_rect)

lemma matmul_shape:
  assumes "w \<noteq> []" and "list_all (\<lambda>r. length r = n) w"
    and "list_all (\<lambda>r. length r = length w) x"
  shows "\<exists>y. matmul x w = Inr y \<and> list_all (\<lambda>r. length r = n) y \<and> length y = length x"
  using assms by (simp add: matmul_def length_transpose_rect list_all_iff)

lemma add_bias_shape:
  assumes "list_all (\<lambda>r. length r = length b) y"
  shows "\<exists>z. add_bias y b = Inr z \<and> list_all (\<lambda>r. length r = length b) z
           \<and> length z = length y"
  using assms by (simp add: add_bias_def list_all_iff)

lemma Linear_forward_shape:
  assumes "Linear_shape l dim_in dim_out" and "0 < dim_in"
    and "list_all (\<lambda>r. length r = dim_in) x"
  shows "\<exists>y. Linear_forward l x = Inr y \<and> list_all (\<lambda>r. length r = dim_out) y
           \<and> length y = length x"
proof -
  from assms have w: "weight l \<noteq> []" "list_all (\<lambda>r. length r = dim_out) (weight l)"
      "list_all (\<lambda>r. length r = length (weight l)) x" "length (bias l) = dim_out"
    by (auto simp: Linear_shape_def)
  from matmul_shape [OF w(1) w(2) w(3)] obtain y where
    y: "matmul x (weight l) = Inr y" "list_all (\<lambda>r. length r = dim_out) y" "length y = length x"
    by blast
  from y(2) w(4) have "list_all (\<lambda>r. length r = length (bias l)) y" by simp
  from add_bias_shape [OF this] obtain z where
    z: "add_bias y (bias l) = Inr z" "list_all (\<lambda>r. length r = length (bias l)) z"
       "length z = length y"
    by blast
  from y z w(4) show ?thesis by (simp add: Linear_forward_def)
qed

lemma GEGLU_forward_of_proj:
  assumes "GEGLU_proj_call p lora self x sc = Inr y"
    and "list_all (\<lambda>r. length r = dim_out * 2) y"
  shows "GEGLU_forward p lora g self x sc =
           Inr (map (\<lambda>r. map2 (*) (take dim_out r) (map (g False) (drop dim_out r))) y)"
  using assms by (simp add: GEGLU_forward_def chunk2_width GEGLU_gelu_def mul_halves)


section \<open>Facts about the two GELU formulas\<close>

text \<open>
  At \<open>1\<close> the two formulas differ: the series of \<open>erf\<close> alternates with decreasing
  terms, so a partial sum bounds it; \<open>pi\<close> and \<open>exp\<close> are bounded through their Taylor
  polynomials.
\<close>

lemma erf_term_pos: "0 \<le> erf_term n"
  by (simp add: erf_term_def)

lemma erf_term_mono: "erf_term (Suc n) \<le> erf_term n"
proof -
  have "(1 / 2 :: real) ^ Suc n \<le> (1 / 2) ^ n" by simp
  moreover have "(fact n * real (2 * n + 1) :: real) \<le> fact (Suc n) * real (2 * Suc n + 1)"
    by (intro mult_mono) (simp_all add: fact_mono)
  ultimately show ?thesis
    unfolding erf_term_def by (intro frac_le) simp_all
qed

lemma erf_term_le: "erf_term n \<le> (1 / 2) ^ n"
proof -
  have "(1 :: real) * 1 \<le> fact n * real (2 * n + 1)"
    by (intro mult_mono) simp_all
  then have "(1 / 2) ^ n / (fact n * real (2 * n + 1)) \<le> (1 / 2 :: real) ^ n / 1"
    by (intro frac_le) simp_all
  then show ?thesis by (simp add: erf_term_def)
qed

lemma erf_term_tendsto: "erf_term \<longlonglongrightarrow> 0"
proof (rule tendsto_sandwich [where f = "\<lambda>n. 0" and h = "\<lambda>n. (1 / 2 :: real) ^ n"])
  show "\<forall>\<^sub>F n in sequentially. 0 \<le> erf_term n" by (simp add: erf_term_pos)
  show "\<forall>\<^sub>F n in sequentially. erf_term n \<le> (1 / 2) ^ n" by (simp add: erf_term_le)
  show "(\<lambda>n. 0 :: real) \<longlonglongrightarrow> 0" by simp
  show "(\<lambda>n. (1 / 2 :: real) ^ n) \<longlonglongrightarrow> 0" by (rule LIMSEQ_realpow_zero) simp_all
qed

lemmas erf_Leibniz = summable_Leibniz' [of erf_term, OF erf_term_tendsto erf_term_pos erf_term_mono]

lemma erf_series_lower: "(\<Sum>i<2 * 3. (- 1) ^ i * erf_term i) \<le> (\<Sum>i. (- 1) ^ i * erf_term i)"
  by (rule erf_Leibniz(2))

lemma erf_series_summable: "summable (\<lambda>i. (- 1) ^ i * erf_term i)"
  by (rule erf_Leibniz(1))

lemma erf_partial: "(855622 / 1000000 :: real) \<le> (\<Sum>i<2 * 3. (- 1) ^ i * erf_term i)"
  by (simp add: erf_term_def eval_nat_numeral)

lemma erf_inv_sqrt2: "erf (1 / sqrt 2) = sqrt (2 / pi) * (\<Sum>i. (- 1) ^ i * erf_term i)"
proof -
  have pw: "(1 / sqrt 2) ^ (2 * n + 1) = 1 / sqrt 2 * (1 / 2) ^ n" for n
  proof -
    have "(1 / sqrt 2) ^ (2 * n) = ((1 / sqrt 2)\<^sup>2) ^ n" by (simp add: power_mult)
    also have "(1 / sqrt 2)\<^sup>2 = 1 / 2" by (simp add: power_divide)
    finally show ?thesis by simp
  qed
  have t: "(- 1) ^ n * (1 / sqrt 2) ^ (2 * n + 1) / (fact n * real (2 * n + 1))
      = 1 / sqrt 2 * ((- 1) ^ n * erf_term n)" for n
    unfolding pw erf_term_def by simp
  have "(\<Sum>n. (- 1) ^ n * (1 / sqrt 2) ^ (2 * n + 1) / (fact n * real (2 * n + 1)))
      = (\<Sum>n. 1 / sqrt 2 * ((- 1) ^ n * erf_term n))"
    by (simp only: t)
  also have "\<dots> = 1 / sqrt 2 * (\<Sum>n. (- 1) ^ n * erf_term n)"
    by (rule suminf_mult [OF erf_series_summable])
  finally have e: "erf (1 / sqrt 2) = 2 / sqrt pi * (1 / sqrt 2 * (\<Sum>n. (- 1) ^ n * erf_term n))"
    by (simp only: erf_def)
  have "2 / sqrt pi * (1 / sqrt 2) = (2 / sqrt 2) / sqrt pi" by simp
  also have "2 / sqrt 2 = sqrt 2" by (rule real_div_sqrt) simp
  also have "sqrt 2 / sqrt pi = sqrt (2 / pi)" by (simp add: real_sqrt_divide)
  finally have c: "2 / sqrt pi * (1 / sqrt 2) = sqrt (2 / pi)" .
  have "erf (1 / sqrt 2) = (2 / sqrt pi * (1 / sqrt 2)) * (\<Sum>n. (- 1) ^ n * erf_term n)"
    by (simp only: e mult.assoc)
  then show ?thesis by (simp only: c)
qed

lemma sum_lessThan_10:
  fixes f :: "nat \<Rightarrow> real"
  shows "(\<Sum>m<10. f m) = f 0 + f 1 + f 2 + f 3 + f 4 + f 5 + f 6 + f 7 + f 8 + f 9"
  by (simp add: eval_nat_numeral)

lemma cos_poly_bound:
  fixes x :: real
  assumes "0 < x"
  shows "\<bar>cos x - (1 - x^2 / 2 + x^4 / 24 - x^6 / 720 + x^8 / 40320)\<bar> \<le> x^10 / 3628800"
proof -
  from Maclaurin_cos_expansion2 [OF assms, of 10] obtain t where
    t: "cos x = (\<Sum>m<10. cos_coeff m * x ^ m) + (cos (t + 1 / 2 * real 10 * pi) / fact 10) * x ^ 10"
    by auto
  have p: "(\<Sum>m<10. cos_coeff m * x ^ m) = 1 - x^2 / 2 + x^4 / 24 - x^6 / 720 + x^8 / 40320"
    unfolding sum_lessThan_10 by (simp add: cos_coeff_def fact_numeral)
  have f: "(fact 10 :: real) = 3628800" by (simp add: fact_numeral)
  have "\<bar>cos x - (1 - x^2 / 2 + x^4 / 24 - x^6 / 720 + x^8 / 40320)\<bar>
      = \<bar>cos (t + 1 / 2 * real 10 * pi)\<bar> * (x ^ 10 / 3628800)"
    unfolding t p f by (simp add: abs_mult)
  also have "\<dots> \<le> 1 * (x ^ 10 / 3628800)"
    by (intro mult_right_mono abs_cos_le_one) simp
  finally show ?thesis by simp
qed

lemma cos_15705_pos: "0 < cos (3141 / 2000 :: real)"
proof -
  define P :: real where "P = 1 - (3141 / 2000)^2 / 2 + (3141 / 2000)^4 / 24
        - (3141 / 2000)^6 / 720 + (3141 / 2000)^8 / 40320"
  define R :: real where "R = (3141 / 2000)^10 / 3628800"
  have "\<bar>cos (3141 / 2000 :: real) - P\<bar> \<le> R"
    unfolding P_def R_def by (rule cos_poly_bound) simp
  then have "P - R \<le> cos (3141 / 2000)" by (simp add: abs_le_iff)
  moreover have "0 < P - R" unfolding P_def R_def by (simp add: power_divide)
  ultimately show ?thesis by linarith
qed

lemma cos_1571_neg: "cos (1571 / 1000 :: real) < 0"
proof -
  define P :: real where "P = 1 - (1571 / 1000)^2 / 2 + (1571 / 1000)^4 / 24
        - (1571 / 1000)^6 / 720 + (1571 / 1000)^8 / 40320"
  define R :: real where "R = (1571 / 1000)^10 / 3628800"
  have "\<bar>cos (1571 / 1000 :: real) - P\<bar> \<le> R"
    unfolding P_def R_def by (rule cos_poly_bound) simp
  then have "cos (1571 / 1000) \<le> P + R" by (simp add: abs_le_iff)
  moreover have "P + R < 0" unfolding P_def R_def by (simp add: power_divide)
  ultimately show ?thesis by linarith
qed

lemma pi_lower: "3141 / 1000 < pi"
proof (rule ccontr)
  assume "\<not> 3141 / 1000 < pi"
  then have "pi / 2 \<le> 3141 / 2000" by simp
  moreover have "(3141 / 2000 :: real) \<le> pi" using pi_ge_two by simp
  ultimately have "cos (3141 / 2000) \<le> cos (pi / 2)"
    by (intro cos_monotone_0_pi_le) simp_all
  with cos_15705_pos show False by simp
qed

lemma pi_upper: "pi \<le> 3142 / 1000"
proof (rule ccontr)
  assume "\<not> pi \<le> 3142 / 1000"
  then have "(1571 / 1000 :: real) < pi / 2" by simp
  then have "0 < cos (1571 / 1000 :: real)"
    by (intro cos_gt_zero_pi) simp_all
  with cos_1571_neg show False by simp
qed

lemma sum_lessThan_11:
  fixes f :: "nat \<Rightarrow> real"
  shows "(\<Sum>m<11. f m) = f 0 + f 1 + f 2 + f 3 + f 4 + f 5 + f 6 + f 7 + f 8 + f 9 + f 10"
  by (simp add: eval_nat_numeral)

lemma exp_16674: "exp (8337 / 5000 :: real) < 52992 / 10000"
proof -
  define r :: real where "r = 8337 / 5000"
  from Maclaurin_exp_le [of r 11] obtain t where
    t: "\<bar>t\<bar> \<le> \<bar>r\<bar>" "exp r = (\<Sum>m<11. r ^ m / fact m) + exp t / fact 11 * r ^ 11"
    by blast
  have "exp t \<le> exp (1 + 1 :: real)" using t(1) by (simp add: r_def)
  also have "\<dots> = exp 1 * exp 1" by (rule exp_add)
  also have "\<dots> \<le> 3 * 3" by (intro mult_mono exp_le) simp_all
  finally have e: "exp t \<le> 9" by simp
  have "exp t / fact 11 * r ^ 11 \<le> 9 / fact 11 * r ^ 11"
    by (intro mult_right_mono divide_right_mono e) (simp_all add: r_def)
  with t(2) have "exp r \<le> (\<Sum>m<11. r ^ m / fact m) + 9 / fact 11 * r ^ 11" by simp
  also have "\<dots> < 52992 / 10000"
    unfolding sum_lessThan_11 r_def by (simp add: fact_numeral power_divide)
  finally show ?thesis by (simp add: r_def)
qed

lemma tanh_08337: "tanh (8337 / 10000 :: real) < 6825 / 10000"
proof -
  define E :: real where "E = exp (8337 / 5000)"
  have E: "0 < E" "E < 52992 / 10000" using exp_16674 by (simp_all add: E_def)
  have "exp (- 2 * (8337 / 10000 :: real)) = 1 / E"
    by (simp add: E_def exp_minus inverse_eq_divide)
  then have t: "tanh (8337 / 10000 :: real) = (1 - 1 / E) / (1 + 1 / E)"
    by (simp only: tanh_real_altdef)
  have u: "10000 / 52992 < 1 / E" using E by (simp add: field_simps)
  have "0 < 1 + 1 / E" using E(1) by (simp add: add_pos_pos)
  moreover have "1 - 1 / E < 6825 / 10000 * (1 + 1 / E)" using u by simp
  ultimately have "(1 - 1 / E) / (1 + 1 / E) < 6825 / 10000"
    by (simp only: pos_divide_less_eq)
  with t show ?thesis by simp
qed

lemma sqrt_2_over_pi_bounds:
  "79783 / 100000 \<le> sqrt (2 / pi)" "sqrt (2 / pi) \<le> 79797 / 100000"
proof -
  have "(79783 / 100000 :: real)\<^sup>2 \<le> 2 / (3142 / 1000)" by (simp add: power_divide)
  also have "\<dots> \<le> 2 / pi" using pi_upper pi_gt_zero by (intro divide_left_mono) simp_all
  finally show "79783 / 100000 \<le> sqrt (2 / pi)" by (rule real_le_rsqrt)
  have "2 / pi \<le> 2 / (3141 / 1000)" using pi_lower by (intro divide_left_mono) simp_all
  also have "\<dots> \<le> (79797 / 100000 :: real)\<^sup>2" by (simp add: power_divide)
  finally show "sqrt (2 / pi) \<le> 79797 / 100000" by (intro real_le_lsqrt) simp_all
qed

lemma gelu_tanh_1: "gelu_tanh 1 < 16825 / 20000"
proof -
  have "sqrt (2 / pi) * (1 + 0.044715 * 1 ^ 3) \<le> 79797 / 100000 * (1 + 0.044715 * 1 ^ 3 :: real)"
    by (intro mult_right_mono sqrt_2_over_pi_bounds) simp
  also have "\<dots> \<le> 8337 / 10000" by simp
  finally have "tanh (sqrt (2 / pi) * (1 + 0.044715 * 1 ^ 3)) \<le> tanh (8337 / 10000 :: real)"
    by (simp only: tanh_real_le_iff)
  with tanh_08337 have "tanh (sqrt (2 / pi) * (1 + 0.044715 * 1 ^ 3)) < 6825 / 10000"
    by linarith
  then show ?thesis unfolding gelu_tanh_def by simp
qed

lemma gelu_erf_1: "16826 / 20000 < gelu_erf 1"
proof -
  define S :: real where "S = (\<Sum>i. (- 1) ^ i * erf_term i)"
  have S: "855622 / 1000000 \<le> S"
    unfolding S_def using erf_partial erf_series_lower by linarith
  have "(79783 / 100000) * (855622 / 1000000) \<le> sqrt (2 / pi) * S"
    using sqrt_2_over_pi_bounds(1) S by (intro mult_mono) simp_all
  then have "6826 / 10000 < erf (1 / sqrt 2)"
    unfolding erf_inv_sqrt2 S_def [symmetric] by simp
  then show ?thesis unfolding gelu_erf_def by simp
qed

lemma gelu_variants_differ: "gelu_tanh 1 \<noteq> gelu_erf 1"
  using gelu_tanh_1 gelu_erf_1 by linarith


section \<open>Facts about the script\<close>

lemma for_range_pipe:
  "for_range n (pipe a) s =
     s\<lparr>trace := trace s @ replicate n (pipe_event a),
       n_calls := n_calls s + n,
       image := (if n = 0 then image s else n_calls s + n)\<rparr>"
proof (induction n arbitrary: s)
  case 0
  show ?case by simp
next
  case (Suc n)
  show ?case
    unfolding for_range.simps Suc
    by (simp add: pipe_def emit_def replicate_app_Cons_same)
qed

lemma total_milliseconds_sub:
  "total_milliseconds (datetime_sub t2 t1) = real_of_int (t2 - t1) / 1000"
proof -
  define d where "d = t2 - t1"
  have "(d div 86400000000 * 86400 + d mod 86400000000 div 1000000) * 1000000 + d mod 1000000 = d"
  proof -
    have a: "d mod 86400000000 mod 1000000 = d mod 1000000"
      by (rule mod_mod_cancel) simp
    have "d = d div 86400000000 * 86400000000 + d mod 86400000000" by simp
    also have "d mod 86400000000 =
        d mod 86400000000 div 1000000 * 1000000 + d mod 86400000000 mod 1000000"
      by simp
    finally show ?thesis using a by (simp add: algebra_simps)
  qed
  then show ?thesis by (simp add: total_milliseconds_def datetime_sub_def d_def)
qed

lemma time_ms_sub:
  "time_ms (datetime_sub t2 t1) = real_of_int ((t2 - t1) mod 86400000000) / 1000"
proof -
  define d where "d = (t2 - t1) mod 86400000000"
  define q where "q = d div 1000000"
  define r where "r = d mod 1000000"
  have a: "(t2 - t1) mod 1000000 = r"
    unfolding d_def r_def by (rule mod_mod_cancel [symmetric]) simp
  have "d = q * 1000000 + r" unfolding q_def r_def by simp
  then have "real_of_int d = real_of_int q * 1000000 + real_of_int r" by simp
  then have "real_of_int (q * 1000) + real_of_int r / 1000 = real_of_int d / 1000"
    by simp
  then show ?thesis
    unfolding time_ms_def datetime_sub_def using a by (simp add: d_def q_def)
qed

text \<open>The script's milliseconds are the elapsed ones exactly from zero up to one day.\<close>

lemma time_ms_eq_total_iff:
  "time_ms (datetime_sub t2 t1) = total_milliseconds (datetime_sub t2 t1)
     \<longleftrightarrow> 0 \<le> t2 - t1 \<and> t2 - t1 < 86400000000"
proof -
  have "(t2 - t1) mod 86400000000 = t2 - t1 \<longleftrightarrow> 0 \<le> t2 - t1 \<and> t2 - t1 < 86400000000"
    by (smt (verit) mod_pos_pos_trivial pos_mod_bound pos_mod_sign)
  moreover have "time_ms (datetime_sub t2 t1) = total_milliseconds (datetime_sub t2 t1)
      \<longleftrightarrow> (t2 - t1) mod 86400000000 = t2 - t1"
    unfolding time_ms_sub total_milliseconds_sub
    by (simp only: of_int_eq_iff divide_cancel_right) simp
  ultimately show ?thesis by simp
qed




lemma script_exits:
  "parse_args argv = Inl e \<Longrightarrow>
     trace (script argv starttime endtime mem) =
       [SetEnv ''FLAGS_use_cuda_managed_memory'' ''true'', FromPretrained, ManualSeed 42,
        ParseArgs, Raised e]"
  by (simp add: script_def Let_def emit_def startup_def)

text \<open>
  \<open>parse_args\<close> returns exactly on the command lines without a request for help, a
  refused argument or a refused integer, and every namespace is returned on some
  command line.
\<close>

lemma get_value_flag_type: "get_value (flag_type f x) = flag_type f x"
  by (cases f) simp_all

lemma flag_type_returns: "\<exists>v. flag_type f x = Inr v"
  by (cases f) simp_all

lemma consume_args_returns_iff:
  "(\<exists>a. consume_args argv namespace = Inr a) \<longleftrightarrow>
     HelpArg \<notin> set argv \<and> RefusedArg \<notin> set argv \<and> (\<forall>k. IntArg k None \<notin> set argv)"
proof (induction argv namespace rule: consume_args.induct)
  case (4 f x rest namespace)
  obtain v where v: "flag_type f x = Inr v" using flag_type_returns by blast
  with 4 [of v] show ?case by (simp add: get_value_flag_type)
qed auto

lemma parse_args_returns_iff:
  "(\<exists>a. parse_args argv = Inr a) \<longleftrightarrow>
     HelpArg \<notin> set argv \<and> RefusedArg \<notin> set argv \<and> (\<forall>k. IntArg k None \<notin> set argv)"
  by (simp add: parse_args_def consume_args_returns_iff)

lemma lower_true_false: "lower ''true'' = ''true''" "lower ''false'' = ''false''"
  by code_simp+

lemma flag_type_true_false:
  "flag_type f ''true'' = Inr True" "flag_type f ''false'' = Inr False"
  by (cases f; simp add: lower_true_false)+

lemma parse_args_reaches_every_namespace:
  "parse_args
     [FlagArg benchmark_flag (if benchmark a then ''true'' else ''false''),
      FlagArg inference_optimize_flag (if inference_optimize a then ''true'' else ''false''),
      FlagArg inference_optimize_triton_flag
        (if inference_optimize_triton a then ''true'' else ''false''),
      IntArg height_option (Some (height a)),
      IntArg width_option (Some (width a)),
      IntArg num_inference_steps_option (Some (num_inference_steps a))] = Inr (a :: args)"
proof -
  have f: "flag_type f (if b then ''true'' else ''false'') = Inr b" for f b
    by (cases b) (simp_all add: flag_type_true_false)
  show ?thesis
    unfolding parse_args_def default_args_def consume_args.simps f get_value.simps
    by simp
qed


section \<open>The claims\<close>

text \<open>
  C1. The claim is that \<open>forward\<close> returns \<open>self.gelu(self.proj(h))\<close> under both
  settings of \<open>approximate\<close>. \<open>forward\<close> hands the kernel \<open>act_method="gelu"\<close> and never
  \<open>approximate\<close>, so whatever the kernel computes, on an input where
  \<open>F.gelu(y, approximate=True)\<close> and \<open>F.gelu(y, approximate=False)\<close> differ for the
  projection's output \<open>y\<close>, \<open>forward\<close> cannot return \<open>self.gelu(self.proj(h))\<close> both for
  \<open>approximate = "none"\<close> and for \<open>approximate = "tanh"\<close>. With weight \<open>1\<close>, bias \<open>0\<close>
  and input \<open>1\<close> the two values are \<open>gelu_erf 1\<close> and \<open>gelu_tanh 1\<close>, which differ.
\<close>

theorem GELU_forward_not_gelu_of_proj:
  assumes "Linear_forward (GELU_proj self) h = Inr y"
    and "F_gelu g y True \<noteq> F_gelu g y False"
  shows "\<not> (GELU_forward krn in_dynamic_mode (self\<lparr>approximate := ''none''\<rparr>) h
              = Inr (GELU_gelu g (self\<lparr>approximate := ''none''\<rparr>) y)
           \<and> GELU_forward krn in_dynamic_mode (self\<lparr>approximate := ''tanh''\<rparr>) h
              = Inr (GELU_gelu g (self\<lparr>approximate := ''tanh''\<rparr>) y))"
  using assms by (auto simp: GELU_forward_def GELU_gelu_def split: sum.splits)

theorem GELU_forward_not_gelu_of_proj_witness:
  "\<forall>krn in_dynamic_mode.
     \<not> (GELU_forward krn in_dynamic_mode
           \<lparr>GELU_proj = \<lparr>weight = [[1]], bias = [0]\<rparr>, approximate = ''none''\<rparr> [[1]]
          = Inr [[gelu_erf 1]]
        \<and> GELU_forward krn in_dynamic_mode
           \<lparr>GELU_proj = \<lparr>weight = [[1]], bias = [0]\<rparr>, approximate = ''tanh''\<rparr> [[1]]
          = Inr [[gelu_tanh 1]])"
proof (intro allI)
  fix krn :: "fused_bias_act_op \<Rightarrow> py_error + tensor" and in_dynamic_mode :: bool
  let ?self = "\<lparr>GELU_proj = \<lparr>weight = [[1]], bias = [0]\<rparr>, approximate = ''none''\<rparr>"
  have tr: "transpose [[1 :: real]] = [[1]]" by code_simp
  have lin: "Linear_forward (GELU_proj ?self) [[1]] = Inr [[1]]"
    by (simp add: Linear_forward_def matmul_def add_bias_def dot_def tr)
  have ne: "F_gelu paddle_gelu [[1]] True \<noteq> F_gelu paddle_gelu [[1]] False"
    using gelu_variants_differ by (simp add: F_gelu_def paddle_gelu_def)
  from GELU_forward_not_gelu_of_proj [OF lin ne, of krn in_dynamic_mode]
  show "\<not> (GELU_forward krn in_dynamic_mode
           \<lparr>GELU_proj = \<lparr>weight = [[1]], bias = [0]\<rparr>, approximate = ''none''\<rparr> [[1]]
          = Inr [[gelu_erf 1]]
        \<and> GELU_forward krn in_dynamic_mode
           \<lparr>GELU_proj = \<lparr>weight = [[1]], bias = [0]\<rparr>, approximate = ''tanh''\<rparr> [[1]]
          = Inr [[gelu_tanh 1]])"
    by (simp add: GELU_gelu_def F_gelu_def paddle_gelu_def)
qed

text \<open>
  C2. For a \<open>GEGLU(dim_in, dim_out)\<close> module and an input whose last axis has \<open>dim_in\<close>
  entries, the projection returns rows of \<open>dim_out * 2\<close> entries (with
  \<open>LoRACompatibleLinear\<close> this is what the class is taken to deliver), and \<open>forward\<close>
  returns, row by row, the first \<open>dim_out\<close> entries multiplied entry by entry with
  \<open>F.gelu\<close> of the last \<open>dim_out\<close> entries.
\<close>

theorem GEGLU_forward_gates_halves:
  assumes "GEGLU_shape self dim_in dim_out" and "0 < dim_in"
    and "list_all (\<lambda>r. length r = dim_in) x"
    and "\<not> USE_PEFT_BACKEND \<Longrightarrow>
           \<exists>y. lora_forward (GEGLU_proj self) x sc = Inr y
               \<and> list_all (\<lambda>r. length r = dim_out * 2) y"
  shows "\<exists>y. GEGLU_proj_call USE_PEFT_BACKEND lora_forward self x sc = Inr y
           \<and> list_all (\<lambda>r. length r = dim_out * 2) y
           \<and> GEGLU_forward USE_PEFT_BACKEND lora_forward g self x sc =
               Inr (map (\<lambda>r. map2 (*) (take dim_out r) (map (g False) (drop dim_out r))) y)"
proof -
  have "\<exists>y. GEGLU_proj_call USE_PEFT_BACKEND lora_forward self x sc = Inr y
           \<and> list_all (\<lambda>r. length r = dim_out * 2) y"
  proof (cases USE_PEFT_BACKEND)
    case True
    from Linear_forward_shape [OF assms(1) [unfolded GEGLU_shape_def] assms(2) assms(3)]
    show ?thesis using True by (auto simp: GEGLU_proj_call_def)
  next
    case False
    with assms(4) show ?thesis by (simp add: GEGLU_proj_call_def)
  qed
  then obtain y where y: "GEGLU_proj_call USE_PEFT_BACKEND lora_forward self x sc = Inr y"
      "list_all (\<lambda>r. length r = dim_out * 2) y"
    by blast
  from GEGLU_forward_of_proj [OF y] y show ?thesis by blast
qed

theorem GEGLU_forward_gates_halves_witness:
  "\<forall>g lora_forward sc.
     GEGLU_forward True lora_forward g \<lparr>GEGLU_proj = \<lparr>weight = [[1, 2]], bias = [0, 1]\<rparr>\<rparr> [[3]] sc
       = Inr [[3 * g False 7]]
     \<and> GEGLU_forward False (\<lambda>l x s. Linear_forward l x) g
         \<lparr>GEGLU_proj = \<lparr>weight = [[1, 2]], bias = [0, 1]\<rparr>\<rparr> [[3]] sc
       = Inr [[3 * g False 7]]"
proof (intro allI conjI)
  fix g :: "bool \<Rightarrow> real \<Rightarrow> real"
    and lora_forward :: "Linear \<Rightarrow> tensor \<Rightarrow> real \<Rightarrow> py_error + tensor"
    and sc :: real
  let ?m = "\<lparr>GEGLU_proj = \<lparr>weight = [[1, 2]], bias = [0, 1]\<rparr>\<rparr>"
  have tr: "transpose [[1, 2 :: real]] = [[1], [2]]" by code_simp
  have lin: "Linear_forward \<lparr>weight = [[1, 2]], bias = [0, 1]\<rparr> [[3]] = Inr [[3, 7]]"
    by (simp add: Linear_forward_def matmul_def add_bias_def dot_def tr)
  have sh: "GEGLU_shape ?m 1 1" by (simp add: GEGLU_shape_def Linear_shape_def)
  have x: "list_all (\<lambda>r. length r = 1) [[3 :: real]]" by simp
  from GEGLU_forward_gates_halves [OF sh _ x, of True lora_forward sc g]
  show "GEGLU_forward True lora_forward g ?m [[3]] sc = Inr [[3 * g False 7]]"
    by (auto simp: GEGLU_proj_call_def lin)
  from GEGLU_forward_gates_halves [OF sh _ x, of False "\<lambda>l x s. Linear_forward l x" sc g]
  show "GEGLU_forward False (\<lambda>l x s. Linear_forward l x) g ?m [[3]] sc = Inr [[3 * g False 7]]"
    by (auto simp: GEGLU_proj_call_def lin)
qed

text \<open>
  C3. \<open>ApproximateGELU.forward x\<close> raises what the projection raises and otherwise
  returns, for the projection's output \<open>y\<close>, the tensor whose every entry is
  \<open>v * sigmoid (1.702 * v)\<close> for the entry \<open>v\<close> of \<open>y\<close> at the same place.
\<close>

theorem ApproximateGELU_forward_formula:
  "ApproximateGELU_forward self x =
     (case Linear_forward (ApproximateGELU_proj self) x of
        Inl e \<Rightarrow> Inl e
      | Inr y \<Rightarrow> Inr (map (map (\<lambda>v. v * sigmoid (1.702 * v))) y))"
  by (simp add: ApproximateGELU_forward_def sigmoid_scalar_mul mul_pointwise split: sum.splits)

text \<open>
  C4. The claim is that both branches of \<open>compute_activation\<close> apply the operator to
  the same inputs. The graph branch hands over \<open>x\<close> and \<open>bias\<close> only: it applies the
  operator as the dynamic branch would with \<open>dequant_scales\<close>, \<open>shift\<close> and \<open>smooth\<close>
  all \<open>None\<close>. With a \<open>shift\<close> given, the dynamic branch passes it on, the graph branch
  drops it, and the two applications differ.
\<close>

theorem compute_activation_static_drops_inputs:
  "compute_activation False x b d sh sm a c q r mx mn =
     compute_activation True x b None None None a c q r mx mn
   \<and> op_shift (compute_activation True [[1]] None None (Some [2]) None
         ''gelu'' ''default'' (- 1) 0 0 0) = Some [2]
   \<and> op_shift (compute_activation False [[1]] None None (Some [2]) None
         ''gelu'' ''default'' (- 1) 0 0 0) = None
   \<and> compute_activation True [[1]] None None (Some [2]) None ''gelu'' ''default'' (- 1) 0 0 0
       \<noteq> compute_activation False [[1]] None None (Some [2]) None ''gelu'' ''default'' (- 1) 0 0 0"
  by (cases b) (simp_all add: compute_activation_def)

text \<open>
  C5. When \<open>parse_args\<close> returns a namespace with \<open>benchmark\<close> true the run is: the set-up, the first generation, five more
  generations, a synchronisation and the first clock reading, ten generations, a
  synchronisation and the second clock reading, the two prints and the save of the
  sixteenth image. The average printed is \<open>time_ms\<close> of the difference of the two
  readings, divided by ten. For readings one day and one second apart that is
  \<open>100\<close> milliseconds, where the measured duration divided by ten is \<open>8640100\<close>.
\<close>

theorem benchmark_average_drops_days:
  "trace (script_with_args (a\<lparr>benchmark := True\<rparr>) starttime endtime mem) =
     [SetEnv ''FLAGS_use_cuda_managed_memory'' ''true'', FromPretrained, ManualSeed 42, ParseArgs]
     @ (if inference_optimize a then [SetEnv ''INFERENCE_OPTIMIZE'' ''True''] else [])
     @ (if inference_optimize_triton a then [SetEnv ''INFERENCE_OPTIMIZE_TRITON'' ''True''] else [])
     @ [pipe_event a]
     @ replicate 5 (pipe_event a) @ [Synchronize, Now starttime]
     @ replicate 10 (pipe_event a) @ [Synchronize, Now endtime,
         PrintAveTime (time_ms (datetime_sub endtime starttime) / 10),
         PrintMaxMemory (real mem / 1024 ^ 3),
         Save 16 ''text_to_image_generation-stable_diffusion_3-result.png'']
   \<and> time_ms (datetime_sub 86401000000 0) / 10 = 100
   \<and> total_milliseconds (datetime_sub 86401000000 0) / 10 = 8640100"
  by (simp add: script_with_args_def script_body_def startup_def benchmark_block_def Let_def
      for_range_pipe emit_def pipe_def repeat_times_def pipe_event_def time_ms_def
      total_milliseconds_def datetime_sub_def)




text \<open>
  C7. The claim is that the script's \<open>time_ms\<close> is the elapsed time in milliseconds
  for every elapsed duration. The two agree exactly when the second reading is from
  zero up to one day after the first. One day and one second apart, the script prints
  \<open>100\<close> where the elapsed milliseconds divided by ten are \<open>8640100\<close>; with the second
  reading \<open>3589\<close> seconds before the first, \<open>time_ms\<close> is \<open>82811000\<close>.
\<close>

theorem time_ms_drops_days:
  "time_ms (datetime_sub 86401000000 0) / real repeat_times = 100
   \<and> total_milliseconds (datetime_sub 86401000000 0) / real repeat_times = 8640100
   \<and> time_ms (datetime_sub 0 3589000000) = 82811000
   \<and> total_milliseconds (datetime_sub 0 3589000000) = - 3589000
   \<and> (time_ms (datetime_sub t2 t1) = total_milliseconds (datetime_sub t2 t1)
        \<longleftrightarrow> 0 \<le> t2 - t1 \<and> t2 - t1 < 86400000000)"
  by (simp add: time_ms_eq_total_iff)
    (simp add: time_ms_def total_milliseconds_def datetime_sub_def repeat_times_def)

text \<open>
  C8. Two \<open>GELU\<close> modules with the same projection give the same \<open>forward\<close> on every
  input, whatever their \<open>approximate\<close> attributes are, for every kernel and in both
  execution modes.
\<close>

theorem GELU_forward_ignores_approximate:
  assumes "GELU_proj m1 = GELU_proj m2"
  shows "GELU_forward krn in_dynamic_mode m1 h = GELU_forward krn in_dynamic_mode m2 h"
  using assms by (simp add: GELU_forward_def split: sum.splits)

theorem GELU_forward_ignores_approximate_witness:
  "\<forall>krn in_dynamic_mode h.
     GELU_forward krn in_dynamic_mode
       \<lparr>GELU_proj = \<lparr>weight = [[1, 2]], bias = [0, 1]\<rparr>, approximate = ''none''\<rparr> h
     = GELU_forward krn in_dynamic_mode
       \<lparr>GELU_proj = \<lparr>weight = [[1, 2]], bias = [0, 1]\<rparr>, approximate = ''tanh''\<rparr> h"
proof (intro allI)
  fix krn in_dynamic_mode h
  show "GELU_forward krn in_dynamic_mode
       \<lparr>GELU_proj = \<lparr>weight = [[1, 2]], bias = [0, 1]\<rparr>, approximate = ''none''\<rparr> h
     = GELU_forward krn in_dynamic_mode
       \<lparr>GELU_proj = \<lparr>weight = [[1, 2]], bias = [0, 1]\<rparr>, approximate = ''tanh''\<rparr> h"
    by (rule GELU_forward_ignores_approximate) simp
qed

text \<open>
  C9. For every string \<open>act_fn\<close>, \<open>get_activation act_fn\<close> returns a layer exactly when
  the lowercased name is one of \<open>swish\<close>, \<open>silu\<close>, \<open>mish\<close>, \<open>gelu\<close>, \<open>relu\<close>, and raises
  \<open>ValueError\<close> (naming the lowercased string) otherwise, so no other exception can
  come out. The lookup ignores case, and both \<open>swish\<close> and \<open>silu\<close> yield the Silu layer.
\<close>

theorem get_activation_total:
  "((\<exists>layer. get_activation act_fn = Inr layer) \<longleftrightarrow>
      lower act_fn \<in> {''swish'', ''silu'', ''mish'', ''gelu'', ''relu''})
   \<and> (lower act_fn \<notin> {''swish'', ''silu'', ''mish'', ''gelu'', ''relu''} \<longrightarrow>
        get_activation act_fn =
          Inl (ValueError (''Unsupported activation function: '' @ lower act_fn)))
   \<and> (\<forall>e. get_activation act_fn = Inl e \<longrightarrow> (\<exists>msg. e = ValueError msg))
   \<and> get_activation act_fn = get_activation (lower act_fn)
   \<and> (lower act_fn \<in> {''swish'', ''silu''} \<longrightarrow> get_activation act_fn = Inr nn_Silu)"
  by (simp add: get_activation_def Let_def lower_idem map_of_ACTIVATION_FUNCTIONS)

theorem get_activation_total_witness:
  "get_activation ''SiLU'' = Inr nn_Silu
   \<and> get_activation ''Swish'' = Inr nn_Silu
   \<and> get_activation ''tanh'' = Inl (ValueError ''Unsupported activation function: tanh'')"
proof -
  have l1: "lower ''SiLU'' = ''silu''" by code_simp
  have l2: "lower ''Swish'' = ''swish''" by code_simp
  have l3: "lower ''tanh'' = ''tanh''" by code_simp
  have silu: "get_activation ''SiLU'' = Inr nn_Silu"
    using get_activation_total [of "''SiLU''", THEN conjunct2, THEN conjunct2,
        THEN conjunct2, THEN conjunct2]
    by (simp add: l1)
  have swish: "get_activation ''Swish'' = Inr nn_Silu"
    using get_activation_total [of "''Swish''", THEN conjunct2, THEN conjunct2,
        THEN conjunct2, THEN conjunct2]
    by (simp add: l2)
  have other: "get_activation ''tanh'' =
      Inl (ValueError ''Unsupported activation function: tanh'')"
    using get_activation_total [of "''tanh''", THEN conjunct2, THEN conjunct1]
    by (simp add: l3)
  from silu swish other show ?thesis by simp
qed

text \<open>
  C10. For each of the flags \<open>--benchmark\<close>, \<open>--inference_optimize\<close> and
  \<open>--inference_optimize_triton\<close> and every string \<open>s\<close>, the converter returns, without
  raising, the truth value of "\<open>s\<close> lowercased is \<open>true\<close>, \<open>1\<close> or \<open>yes\<close>": no string
  is rejected.
\<close>

theorem flag_type_never_rejects:
  "flag_type f s = Inr (lower s = ''true'' \<or> lower s = ''1'' \<or> lower s = ''yes'')"
  by (cases f) auto

end
